theory Spec2Isabelle
  imports Main "HOL-Library.Sublist"
begin

section \<open>The Maven proxy worker (src/index.ts)\<close>

text \<open>
  The repository is one file: a request handler \<open>fetch\<close> and three helpers
  (\<open>stripBody\<close>, \<open>isAllowedPath\<close>, \<open>isAllowedExtension\<close>). The handler is
  embedded as a function from the configuration, the cache contents and the inbound
  request to a triple: what the handler produced (a response, or the exception that
  left it), the cache contents afterwards, and the effects it performed, in order.

  What the host runtime supplies is taken as a parameter or written out below:
  \<^item> the regular-expression engine (\<open>new RegExp\<close>, \<open>RegExp.test\<close>) is a parameter;
  \<^item> the upstream origin (the global \<open>fetch\<close>) is a parameter: a function from the
    outbound request to a response or to the exception it throws;
  \<^item> the shared cache (\<open>caches.default\<close>) is a map from URL to response;
    \<open>ctx.waitUntil(cache.put(k, r))\<close> is the update \<open>cache(k \<mapsto> r)\<close>. Expiry of
    entries is not modelled: a key that is present is within its freshness window;
  \<^item> the \<open>Response\<close> constructor and \<open>Headers\<close> follow the Fetch standard;
  \<^item> URLs are strings: \<open>new URL(request.url).pathname\<close> is a field of the inbound
    request, and building a \<open>Request\<close> from the target URL neither fails nor
    rewrites it.
\<close>

subsection \<open>JavaScript strings\<close>

definition startsWith :: "string \<Rightarrow> string \<Rightarrow> bool" where
  "startsWith s p = (take (length p) s = p)"

definition endsWith :: "string \<Rightarrow> string \<Rightarrow> bool" where
  "endsWith s p = (length p \<le> length s \<and> drop (length s - length p) s = p)"

text \<open>\<open>s.split(',')\<close>: the pieces between commas; never an empty array.\<close>

fun split_comma :: "string \<Rightarrow> string list" where
  "split_comma [] = [[]]"
| "split_comma (c # cs) =
     (if c = CHR '','' then [] # split_comma cs
      else (case split_comma cs of
              [] \<Rightarrow> [[c]]
            | x # xs \<Rightarrow> (c # x) # xs))"

text \<open>
  \<open>s.trim()\<close>. A \<open>char\<close> is a code unit below 256, so the white space and line
  terminators of ECMAScript that a string can hold are tab, line feed, vertical tab,
  form feed, carriage return, space and the no-break space U+00A0.
\<close>

definition is_space :: "char \<Rightarrow> bool" where
  "is_space c =
     (c \<in> set [CHR 0x09, CHR 0x0A, CHR 0x0B, CHR 0x0C, CHR 0x0D, CHR '' '', CHR 0xA0])"

definition trim :: "string \<Rightarrow> string" where
  "trim s = rev (dropWhile is_space (rev (dropWhile is_space s)))"

text \<open>Truthiness of a configuration string: \<open>undefined\<close> and \<open>""\<close> are falsy.\<close>

definition truthy :: "string option \<Rightarrow> bool" where
  "truthy v = (case v of None \<Rightarrow> False | Some s \<Rightarrow> s \<noteq> [])"

text \<open>A value inside a template literal: \<open>undefined\<close> prints as such.\<close>

definition tmpl :: "string option \<Rightarrow> string" where
  "tmpl v = (case v of None \<Rightarrow> ''undefined'' | Some s \<Rightarrow> s)"

subsection \<open>Headers\<close>

text \<open>
  A \<open>Headers\<close> object: names are case-insensitive and kept in lower case; the list
  holds one entry per name.
\<close>

type_synonym headers = "(string \<times> string) list"

definition lower_char :: "char \<Rightarrow> char" where
  "lower_char c =
     (case map_of (zip ''ABCDEFGHIJKLMNOPQRSTUVWXYZ'' ''abcdefghijklmnopqrstuvwxyz'') c of
        None \<Rightarrow> c
      | Some d \<Rightarrow> d)"

definition lower :: "string \<Rightarrow> string" where
  "lower s = map lower_char s"

fun headers_set :: "headers \<Rightarrow> string \<Rightarrow> string \<Rightarrow> headers" where
  "headers_set [] n v = [(lower n, v)]"
| "headers_set ((k, w) # h) n v =
     (if k = lower n then (k, v) # h else (k, w) # headers_set h n v)"

definition headers_get :: "headers \<Rightarrow> string \<Rightarrow> string option" where
  "headers_get h n = map_of h (lower n)"

text \<open>\<open>new Headers({...})\<close> from an object literal, whose keys are distinct.\<close>

definition mk_headers :: "(string \<times> string) list \<Rightarrow> headers" where
  "mk_headers kvs = foldl (\<lambda>h (k, v). headers_set h k v) [] kvs"

subsection \<open>Requests, responses, exceptions\<close>

datatype js_error = SyntaxError | TypeError | RangeError | NetworkError

record request =
  "method" :: string
  pathname :: string
  req_headers :: headers

record out_request =
  out_url :: string
  out_method :: string
  out_headers :: headers

record response =
  status :: nat
  statusText :: string
  headers :: headers
  body :: "string option"

text \<open>\<open>response.ok\<close>\<close>

definition ok :: "response \<Rightarrow> bool" where
  "ok r = (200 \<le> status r \<and> status r \<le> 299)"

text \<open>
  \<open>new Response(body, {status, statusText, headers})\<close>, as the Fetch standard
  initializes a response: the constructor throws a \<open>RangeError\<close> for a status outside
  200..599 and a \<open>TypeError\<close> for a body that is not \<open>null\<close> on a null-body status
  (101, 103, 204, 205, 304). Its check of the status text is left out: the handler
  passes the upstream's own status text, or none.
\<close>

definition null_body_status :: "nat \<Rightarrow> bool" where
  "null_body_status s = (s \<in> set [101, 103, 204, 205, 304])"

definition new_Response ::
  "string option \<Rightarrow> nat \<Rightarrow> string \<Rightarrow> headers \<Rightarrow> js_error + response" where
  "new_Response b s t h =
     (if s < 200 \<or> 599 < s then Inl RangeError
      else if b \<noteq> None \<and> null_body_status s then Inl TypeError
      else Inr \<lparr>status = s, statusText = t, headers = h, body = b\<rparr>)"

text \<open>Lines 111-117.\<close>

definition stripBody :: "response \<Rightarrow> js_error + response" where
  "stripBody r = new_Response None (status r) (statusText r) (headers r)"

subsection \<open>Configuration\<close>

text \<open>The bindings of \<open>env\<close>; one that is not configured is \<open>undefined\<close>, here \<open>None\<close>.\<close>

record env =
  GITHUB_OWNER :: "string option"
  GITHUB_REPO :: "string option"
  GITHUB_TOKEN :: "string option"
  ALLOWED_PATHS :: "string option"
  ALLOWED_EXTENSIONS :: "string option"

subsection \<open>Effects\<close>

datatype event =
    Log string
  | Warn string
  | Error string
  | CacheMatch string
  | CachePut string response
  | UpstreamFetch out_request

type_synonym cache = "string \<rightharpoonup> response"

type_synonym outcome = "(js_error + response) \<times> cache \<times> event list"

text \<open>The cache and upstream operations among the effects of a run.\<close>

fun is_io :: "event \<Rightarrow> bool" where
  "is_io (CacheMatch k) = True"
| "is_io (CachePut k r) = True"
| "is_io (UpstreamFetch q) = True"
| "is_io e = False"

fun is_upstream :: "event \<Rightarrow> bool" where
  "is_upstream (UpstreamFetch q) = True"
| "is_upstream e = False"

fun is_put :: "event \<Rightarrow> bool" where
  "is_put (CachePut k r) = True"
| "is_put e = False"

fun is_console :: "event \<Rightarrow> bool" where
  "is_console (Log m) = True"
| "is_console (Warn m) = True"
| "is_console (Error m) = True"
| "is_console e = False"

subsection \<open>Path authorization (lines 119-139)\<close>

text \<open>
  The regular-expression engine: \<open>rx_compile\<close> is \<open>new RegExp(s)\<close>, \<open>None\<close> when it
  throws its \<open>SyntaxError\<close>; \<open>rx_test r u\<close> is \<open>r.test(u)\<close>.
\<close>

record 'r regexp_engine =
  rx_compile :: "string \<Rightarrow> 'r option"
  rx_test :: "'r \<Rightarrow> string \<Rightarrow> bool"

text \<open>The first loop: every pattern is trimmed and compiled, in order.\<close>

fun compile_patterns :: "'r regexp_engine \<Rightarrow> string list \<Rightarrow> js_error + 'r list" where
  "compile_patterns rx [] = Inr []"
| "compile_patterns rx (s # ss) =
     (case rx_compile rx (trim s) of
        None \<Rightarrow> Inl SyntaxError
      | Some r \<Rightarrow>
          (case compile_patterns rx ss of
             Inl e \<Rightarrow> Inl e
           | Inr rs \<Rightarrow> Inr (r # rs)))"

text \<open>The second loop: the first matcher that accepts the path ends it.\<close>

fun test_any :: "'r regexp_engine \<Rightarrow> 'r list \<Rightarrow> string \<Rightarrow> bool" where
  "test_any rx [] url = False"
| "test_any rx (pkg # pkgs) url = (if rx_test rx pkg url then True else test_any rx pkgs url)"

definition isAllowedPath ::
  "'r regexp_engine \<Rightarrow> env \<Rightarrow> string \<Rightarrow> (js_error + bool) \<times> event list" where
  "isAllowedPath rx e url =
     (if truthy (ALLOWED_PATHS e) then
        (case compile_patterns rx (split_comma (tmpl (ALLOWED_PATHS e))) of
           Inl err \<Rightarrow> (Inl err, [])
         | Inr allowedPackages \<Rightarrow>
             if length allowedPackages = 0 then (Inr True, [])
             else if test_any rx allowedPackages url then (Inr True, [])
             else (Inr False,
                   [Warn (''Request for path \"'' @ url @ ''\" is not allowed by ALLOWED_PATHS: ''
                          @ tmpl (ALLOWED_PATHS e))]))
      else (Inr True, []))"

subsection \<open>Extension authorization (lines 141-151)\<close>

text \<open>
  \<open>env.ALLOWED_EXTENSIONS.split(',')\<close> on an absent value is a property access on
  \<open>undefined\<close>: a \<open>TypeError\<close>.
\<close>

fun ends_with_any :: "string \<Rightarrow> string list \<Rightarrow> bool" where
  "ends_with_any path [] = False"
| "ends_with_any path (ext # exts) = (if endsWith path ext then True else ends_with_any path exts)"

definition isAllowedExtension :: "env \<Rightarrow> string \<Rightarrow> js_error + bool" where
  "isAllowedExtension e path =
     (case ALLOWED_EXTENSIONS e of
        None \<Rightarrow> Inl TypeError
      | Some s \<Rightarrow> Inr (ends_with_any path (split_comma s)))"

subsection \<open>The request handler (lines 1-109)\<close>

text \<open>Decimal digits of a number inside a template literal.\<close>

fun string_of_nat :: "nat \<Rightarrow> string" where
  "string_of_nat n =
     (if n < 10 then [''0123456789'' ! n]
      else string_of_nat (n div 10) @ [''0123456789'' ! (n mod 10)])"

definition cacheTtl :: nat where
  "cacheTtl = 60 * 5"

definition cache_control :: string where
  "cache_control = ''public, max-age='' @ string_of_nat cacheTtl"

definition githubMavenUrl :: "env \<Rightarrow> string" where
  "githubMavenUrl e =
     ''https://maven.pkg.github.com/'' @ tmpl (GITHUB_OWNER e) @ ''/'' @ tmpl (GITHUB_REPO e) @ ''/''"

text \<open>
  A response built from a string: the constructor adds the content type of text
  unless the headers name one.
\<close>

definition text_headers :: "headers \<Rightarrow> headers" where
  "text_headers h =
     (if headers_get h ''Content-Type'' = None
      then headers_set h ''Content-Type'' ''text/plain;charset=UTF-8'' else h)"

definition new_Response_text ::
  "string \<Rightarrow> nat \<Rightarrow> string \<Rightarrow> headers \<Rightarrow> js_error + response" where
  "new_Response_text b s t h = new_Response (Some b) s t (text_headers h)"

text \<open>
  The same with a literal status (404, 405, 500), on which the constructor does not
  throw; \<open>statusText\<close> is not given and defaults to the empty string.
\<close>

definition text_response :: "string \<Rightarrow> nat \<Rightarrow> headers \<Rightarrow> response" where
  "text_response b s h = \<lparr>status = s, statusText = [], headers = text_headers h, body = Some b\<rparr>"

definition cors_only :: headers where
  "cors_only = mk_headers [(''Access-Control-Allow-Origin'', ''*'')]"

text \<open>Lines 13-18 and 22-27.\<close>

definition bad_path :: response where
  "bad_path = text_response ''Invalid request (bad path)'' 404 cors_only"

definition bad_extension :: response where
  "bad_extension = text_response ''Invalid request (bad extension)'' 404 cors_only"

text \<open>Lines 31-37: \<open>new Response(null, {headers})\<close>, status 200 by default.\<close>

definition preflight_headers :: headers where
  "preflight_headers = mk_headers
     [(''Access-Control-Allow-Origin'', ''*''),
      (''Access-Control-Allow-Methods'', ''GET, OPTIONS''),
      (''Access-Control-Allow-Headers'', ''Accept, HEAD'')]"

definition preflight :: response where
  "preflight = \<lparr>status = 200, statusText = [], headers = preflight_headers, body = None\<rparr>"

text \<open>Lines 39-44.\<close>

definition method_not_allowed :: response where
  "method_not_allowed = text_response ''Method not allowed'' 405 cors_only"

text \<open>Lines 61 and 106.\<close>

definition internal_error :: response where
  "internal_error = text_response ''Internal server error'' 500 []"

text \<open>Lines 104-107: the handler of the \<open>try\<close> block.\<close>

definition catch_block :: "cache \<Rightarrow> event list \<Rightarrow> outcome" where
  "catch_block c evs = (Inr internal_error, c, evs @ [Error ''Internal server error''])"

text \<open>
  Lines 64-72. The header values are taken to be ones the \<open>Request\<close> constructor
  accepts (no NUL, carriage return or line feed inside the token or the inbound
  \<open>Accept\<close> value), so that the construction, which stands before the \<open>try\<close>
  block, does not throw.
\<close>

definition newRequest :: "env \<Rightarrow> request \<Rightarrow> string \<Rightarrow> out_request" where
  "newRequest e request targetUrl =
     \<lparr>out_url = targetUrl,
      out_method = ''GET'',
      out_headers = mk_headers
        [(''Authorization'', ''Bearer '' @ tmpl (GITHUB_TOKEN e)),
         (''Accept'', (if truthy (headers_get (req_headers request) ''Accept'')
                       then tmpl (headers_get (req_headers request) ''Accept'')
                       else ''application/octet-stream'')),
         (''User-Agent'', ''Cloudflare-Worker-Maven-Proxy''),
         (''Access-Control-Allow-Origin'', ''*'')]\<rparr>"

text \<open>Lines 80-86.\<close>

definition fail_response :: "response \<Rightarrow> js_error + response" where
  "fail_response r =
     new_Response_text (''Failed to fetch from GitHub Packages: '' @ statusText r) (status r) []
       (mk_headers [(''Access-Control-Allow-Origin'', ''*''), (''Cache-Control'', cache_control)])"

text \<open>Lines 91-98.\<close>

definition cache_response :: "response \<Rightarrow> js_error + response" where
  "cache_response r =
     (case new_Response (body r) (status r) (statusText r) (headers r) of
        Inl err \<Rightarrow> Inl err
      | Inr cr \<Rightarrow>
          Inr (cr\<lparr>headers :=
                 headers_set (headers_set (headers cr) ''Cache-Control'' cache_control)
                   ''Access-Control-Allow-Origin'' ''*''\<rparr>))"

text \<open>
  Lines 58-107, the cache miss. \<open>evs\<close> are the effects so far. The cache key is the
  target URL (the key request is always a GET).
\<close>

definition fetch_miss ::
  "(out_request \<Rightarrow> js_error + response) \<Rightarrow> env \<Rightarrow> cache \<Rightarrow> request \<Rightarrow> string \<Rightarrow>
   event list \<Rightarrow> outcome" where
  "fetch_miss upstream e c request targetUrl evs =
     (let evs1 = evs @ [Log (''Fetching from GitHub Packages: '' @ targetUrl)] in
      if \<not> truthy (GITHUB_TOKEN e)
      then (Inr internal_error, c, evs1 @ [Error ''GitHub token is not set''])
      else
        (let evs2 = evs1 @ [UpstreamFetch (newRequest e request targetUrl)] in
         case upstream (newRequest e request targetUrl) of
           Inl err \<Rightarrow> catch_block c evs2
         | Inr r \<Rightarrow>
             (let evs3 = evs2 @ [Log (''Response status from GitHub Packages: ''
                                       @ string_of_nat (status r))] in
              if \<not> ok r then
                (let evs4 = evs3 @ [Warn ''Failed to fetch from GitHub Packages''] in
                 case fail_response r of
                   Inl err \<Rightarrow> catch_block c evs4
                 | Inr fail \<Rightarrow>
                     (Inr fail, c(targetUrl \<mapsto> fail), evs4 @ [CachePut targetUrl fail]))
              else
                (case cache_response r of
                   Inl err \<Rightarrow> catch_block c evs3
                 | Inr cacheResponse \<Rightarrow>
                     (let c' = c(targetUrl \<mapsto> cacheResponse);
                          evs4 = evs3 @ [CachePut targetUrl cacheResponse,
                                         Log (''Cached response for '' @ targetUrl @ '' for ''
                                              @ string_of_nat cacheTtl @ '' seconds'')] in
                      if method request = ''HEAD'' then
                        (case stripBody cacheResponse of
                           Inl err \<Rightarrow> catch_block c' evs4
                         | Inr stripped \<Rightarrow> (Inr stripped, c', evs4))
                      else (Inr cacheResponse, c', evs4))))))"

text \<open>Lines 6-11: the path is the URL's path name without its leading slash.\<close>

definition request_path :: "request \<Rightarrow> string" where
  "request_path request =
     (if startsWith (pathname request) ''/'' then drop 1 (pathname request)
      else pathname request)"

text \<open>Lines 2-56, then the cache miss.\<close>

definition fetch_handler ::
  "'r regexp_engine \<Rightarrow> (out_request \<Rightarrow> js_error + response) \<Rightarrow> env \<Rightarrow> cache \<Rightarrow> request \<Rightarrow>
   outcome" where
  "fetch_handler rx upstream e c request =
     (let path = request_path request in
      case isAllowedPath rx e path of
        (Inl err, w) \<Rightarrow> (Inl err, c, w)
      | (Inr False, w) \<Rightarrow> (Inr bad_path, c, w)
      | (Inr True, w) \<Rightarrow>
          (let evs1 = w @ [Log (''Request for path: '' @ path)] in
           case isAllowedExtension e path of
             Inl err \<Rightarrow> (Inl err, c, evs1)
           | Inr False \<Rightarrow> (Inr bad_extension, c, evs1)
           | Inr True \<Rightarrow>
               (let evs2 = evs1 @ [Log (''Request for path with allowed extension: '' @ path)] in
                if method request = ''OPTIONS'' then (Inr preflight, c, evs2)
                else if method request \<noteq> ''GET'' \<and> method request \<noteq> ''HEAD''
                then (Inr method_not_allowed, c, evs2)
                else
                  (let targetUrl = githubMavenUrl e @ path;
                       evs3 = evs2 @ [CacheMatch targetUrl] in
                   case c targetUrl of
                     Some cachedResponse \<Rightarrow>
                       if method request = ''HEAD'' then
                         (case stripBody cachedResponse of
                            Inl err \<Rightarrow> (Inl err, c, evs3)
                          | Inr stripped \<Rightarrow> (Inr stripped, c, evs3))
                       else (Inr cachedResponse, c, evs3)
                   | None \<Rightarrow> fetch_miss upstream e c request targetUrl evs3))))"

subsection \<open>Concrete inputs\<close>

text \<open>
  An engine for plain patterns: a pattern without metacharacters is searched as text
  anywhere in the path, as ECMAScript does, and the pattern \<open>(\<close> (an unterminated
  group) does not compile.
\<close>

fun contains :: "string \<Rightarrow> string \<Rightarrow> bool" where
  "contains [] p = (p = [])"
| "contains (c # cs) p = (if startsWith (c # cs) p then True else contains cs p)"

definition plain_engine :: "string regexp_engine" where
  "plain_engine =
     \<lparr>rx_compile = (\<lambda>p. if p = ''('' then None else Some p),
      rx_test = (\<lambda>r u. contains u r)\<rparr>"

definition example_env :: env where
  "example_env =
     \<lparr>GITHUB_OWNER = Some ''acme'', GITHUB_REPO = Some ''libs'', GITHUB_TOKEN = Some ''s3cret'',
      ALLOWED_PATHS = None, ALLOWED_EXTENSIONS = Some ''.jar,.pom''\<rparr>"

definition jar_request :: "string \<Rightarrow> request" where
  "jar_request m = \<lparr>method = m, pathname = ''/com/example/lib-1.0.jar'', req_headers = []\<rparr>"

definition jar_url :: string where
  "jar_url = ''https://maven.pkg.github.com/acme/libs/com/example/lib-1.0.jar''"

text \<open>A cache that holds another artifact, and not the one requested.\<close>

definition other_cache :: cache where
  "other_cache = [''https://maven.pkg.github.com/acme/libs/com/example/lib-1.0.pom'' \<mapsto>
     \<lparr>status = 200, statusText = ''OK'', headers = [], body = Some ''POM''\<rparr>]"

definition unreachable :: "out_request \<Rightarrow> js_error + response" where
  "unreachable q = Inl NetworkError"

definition answers :: "response \<Rightarrow> out_request \<Rightarrow> js_error + response" where
  "answers r q = Inr r"

definition unavailable :: response where
  "unavailable =
     \<lparr>status = 503, statusText = ''Service Unavailable'', headers = [], body = Some ''down''\<rparr>"

definition not_modified :: response where
  "not_modified = \<lparr>status = 304, statusText = ''Not Modified'', headers = [], body = None\<rparr>"

definition jar_found :: response where
  "jar_found =
     \<lparr>status = 200, statusText = ''OK'', headers = [(''content-type'', ''application/java-archive'')],
      body = Some ''BYTES''\<rparr>"

text \<open>An OPTIONS request for a path with an extension that is not allowed.\<close>

definition readme_request :: request where
  "readme_request = \<lparr>method = ''OPTIONS'', pathname = ''/notes/readme.txt'', req_headers = []\<rparr>"

text \<open>What the cache holds after the upstream answered \<open>jar_found\<close>, or \<open>unavailable\<close>.\<close>

definition jar_cached :: response where
  "jar_cached =
     \<lparr>status = 200, statusText = ''OK'',
      headers = [(''content-type'', ''application/java-archive''),
                 (''cache-control'', ''public, max-age=300''),
                 (''access-control-allow-origin'', ''*'')],
      body = Some ''BYTES''\<rparr>"

definition jar_failed :: response where
  "jar_failed =
     \<lparr>status = 503, statusText = [],
      headers = [(''access-control-allow-origin'', ''*''),
                 (''cache-control'', ''public, max-age=300''),
                 (''content-type'', ''text/plain;charset=UTF-8'')],
      body = Some ''Failed to fetch from GitHub Packages: Service Unavailable''\<rparr>"

subsection \<open>Vocabulary of the statements\<close>

text \<open>Lines 47-51: the cache key of a request is its target URL, whatever its method.\<close>

definition cacheKey :: "env \<Rightarrow> request \<Rightarrow> string" where
  "cacheKey e request = githubMavenUrl e @ request_path request"

text \<open>The request passes both authorization checks (lines 12 and 21).\<close>

definition authorized :: "'r regexp_engine \<Rightarrow> env \<Rightarrow> request \<Rightarrow> bool" where
  "authorized rx e request =
     (fst (isAllowedPath rx e (request_path request)) = Inr True \<and>
      isAllowedExtension e (request_path request) = Inr True)"

text \<open>The request passes the method check of line 38.\<close>

definition proxied :: "request \<Rightarrow> bool" where
  "proxied request = (method request = ''GET'' \<or> method request = ''HEAD'')"

text \<open>
  The response is a rejection by an authorization check: status 404, the check's
  text as body, the allow-origin header, and neither of the two other preflight
  headers.
\<close>

definition rejection :: "string \<Rightarrow> response \<Rightarrow> bool" where
  "rejection msg r =
     (status r = 404 \<and> body r = Some msg \<and>
      headers_get (headers r) ''Access-Control-Allow-Origin'' = Some ''*'' \<and>
      headers_get (headers r) ''Access-Control-Allow-Methods'' = None \<and>
      headers_get (headers r) ''Access-Control-Allow-Headers'' = None)"

section \<open>Properties\<close>

subsection \<open>Strings and the two authorizers\<close>

lemma split_comma_not_Nil: "split_comma s \<noteq> []"
  by (induction s) (auto split: list.splits)

lemma endsWith_suffix: "endsWith s p = suffix p s"
  unfolding endsWith_def
  by (metis append_eq_conv_conj append_take_drop_id length_append diff_add_inverse2 le_add2
      suffix_def)

lemma startsWith_prefix: "startsWith s p = prefix p s"
  unfolding startsWith_def by (metis append_eq_conv_conj prefix_def append_take_drop_id)

lemma endsWith_Nil: "endsWith path []"
  by (simp add: endsWith_def)

lemma ends_with_any_iff: "ends_with_any path exts = (\<exists>ext\<in>set exts. endsWith path ext)"
  by (induction exts) auto

lemma test_any_iff: "test_any rx pkgs url = (\<exists>pkg\<in>set pkgs. rx_test rx pkg url)"
  by (induction pkgs) auto

lemma compile_patterns_length: "compile_patterns rx ss = Inr rs \<Longrightarrow> length rs = length ss"
  by (induction ss arbitrary: rs) (auto split: option.splits sum.splits)

lemma compile_patterns_fails:
  "p \<in> set ss \<Longrightarrow> rx_compile rx (trim p) = None \<Longrightarrow> compile_patterns rx ss = Inl SyntaxError"
  by (induction ss) (auto split: option.splits sum.splits)

lemma compile_patterns_error: "compile_patterns rx ss = Inl err \<Longrightarrow> err = SyntaxError"
  by (induction ss) (auto split: option.splits sum.splits)

text \<open>
  The test of line 126 never succeeds: \<open>split\<close> returns at least one piece, and every
  piece is compiled or the loop throws.
\<close>

lemma no_zero_entries: "compile_patterns rx (split_comma s) \<noteq> Inr []"
  using compile_patterns_length [of rx "split_comma s" "[]"] split_comma_not_Nil [of s]
  by auto

lemma cache_control_eq: "cache_control = ''public, max-age=300''"
  by (simp add: cache_control_def cacheTtl_def)

lemma compile_blank:
  assumes "\<forall>p\<in>set ss. trim p = []" and "rx_compile rx [] = Some r"
  shows "compile_patterns rx ss = Inr (replicate (length ss) r)"
  using assms by (induction ss) auto

text \<open>
  An allow-list of blank entries only (\<open>","\<close>, \<open>" "\<close>) compiles the empty pattern
  once per entry; with an engine whose empty pattern accepts every string, as
  ECMAScript's does, every path is allowed.
\<close>

lemma blank_allow_list_allows_all:
  assumes "ALLOWED_PATHS e = Some s" and "\<forall>p\<in>set (split_comma s). trim p = []"
    and "rx_compile rx [] = Some r" and "\<forall>u. rx_test rx r u"
  shows "isAllowedPath rx e url = (Inr True, [])"
proof (cases "s = []")
  case True
  with assms(1) show ?thesis by (simp add: isAllowedPath_def truthy_def)
next
  case False
  have c: "compile_patterns rx (split_comma s) = Inr (replicate (length (split_comma s)) r)"
    using assms(2,3) by (rule compile_blank)
  have "split_comma s \<noteq> []" by (rule split_comma_not_Nil)
  then have "test_any rx (replicate (length (split_comma s)) r) url"
    using assms(4) by (cases "split_comma s") auto
  with c False assms(1) show ?thesis
    by (simp add: isAllowedPath_def truthy_def tmpl_def)
qed

text \<open>
  C9: an allow-list that is present but has no entry allows every path:
  \<open>isAllowedPath\<close> returns true for every path, and logs nothing. The allow-list has
  no entry when it is the empty string, which line 120 takes as not configured, or
  when the array of compiled patterns is empty (line 126); the latter never happens
  (\<open>no_zero_entries\<close>).
\<close>

theorem empty_allow_list_allows_all:
  assumes "ALLOWED_PATHS e = Some s"
    and "s = [] \<or> compile_patterns rx (split_comma s) = Inr []"
  shows "isAllowedPath rx e url = (Inr True, [])"
  using assms by (auto simp add: isAllowedPath_def truthy_def tmpl_def)

theorem empty_allow_list_allows_all_witness:
  "ALLOWED_PATHS (example_env\<lparr>ALLOWED_PATHS := Some []\<rparr>) = Some [] \<and>
   isAllowedPath plain_engine (example_env\<lparr>ALLOWED_PATHS := Some []\<rparr>) ''private/admin.jar''
     = (Inr True, [])"
  using empty_allow_list_allows_all
    [of "example_env\<lparr>ALLOWED_PATHS := Some []\<rparr>" "[]" plain_engine "''private/admin.jar''"]
  by simp

text \<open>
  C10: when the extension allow-list has an empty entry (a trailing comma, as in
  \<open>.jar,\<close>), \<open>isAllowedExtension\<close> returns true for every path: every string ends
  with the empty string.
\<close>

theorem empty_extension_entry_allows_all:
  assumes "ALLOWED_EXTENSIONS e = Some s" and "[] \<in> set (split_comma s)"
  shows "isAllowedExtension e path = Inr True"
  using assms endsWith_Nil by (auto simp add: isAllowedExtension_def ends_with_any_iff)

theorem empty_extension_entry_allows_all_witness:
  "ALLOWED_EXTENSIONS (example_env\<lparr>ALLOWED_EXTENSIONS := Some ''.jar,''\<rparr>) = Some ''.jar,'' \<and>
   [] \<in> set (split_comma ''.jar,'') \<and>
   isAllowedExtension (example_env\<lparr>ALLOWED_EXTENSIONS := Some ''.jar,''\<rparr>) ''bin/tool.exe''
     = Inr True"
  using empty_extension_entry_allows_all
    [of "example_env\<lparr>ALLOWED_EXTENSIONS := Some ''.jar,''\<rparr>" "''.jar,''" "''bin/tool.exe''"]
  by simp

subsection \<open>The handler up to the cache lookup\<close>

lemma isAllowedPath_True: "isAllowedPath rx e url = (Inr True, w) \<Longrightarrow> w = []"
  by (auto simp add: isAllowedPath_def split: if_splits sum.splits)

lemma isAllowedPath_error:
  "isAllowedPath rx e url = (Inl err, w) \<Longrightarrow> err = SyntaxError \<and> w = []"
  by (auto simp add: isAllowedPath_def split: if_splits sum.splits dest: compile_patterns_error)

lemma isAllowedPath_events:
  "isAllowedPath rx e url = (a, w) \<Longrightarrow>
     filter is_io w = [] \<and> filter is_put w = [] \<and> filter is_upstream w = []"
  by (auto simp add: isAllowedPath_def split: if_splits sum.splits)

lemma authorizedD:
  "authorized rx e q \<Longrightarrow>
     isAllowedPath rx e (request_path q) = (Inr True, []) \<and>
     isAllowedExtension e (request_path q) = Inr True"
  unfolding authorized_def
  by (cases "isAllowedPath rx e (request_path q)") (auto dest: isAllowedPath_True)

lemma preflight_headers_eq:
  "preflight_headers =
     [(''access-control-allow-origin'', ''*''),
      (''access-control-allow-methods'', ''GET, OPTIONS''),
      (''access-control-allow-headers'', ''Accept, HEAD'')]"
  by (simp add: preflight_headers_def mk_headers_def lower_def lower_char_def)

lemma cors_only_eq: "cors_only = [(''access-control-allow-origin'', ''*'')]"
  by (simp add: cors_only_def mk_headers_def lower_def lower_char_def)

lemma content_type_lower: "lower ''Content-Type'' = ''content-type''"
  by (simp add: lower_def lower_char_def)

lemma bad_extension_eq:
  "bad_extension =
     \<lparr>status = 404, statusText = [],
      headers = [(''access-control-allow-origin'', ''*''),
                 (''content-type'', ''text/plain;charset=UTF-8'')],
      body = Some ''Invalid request (bad extension)''\<rparr>"
  by (simp add: bad_extension_def text_response_def text_headers_def headers_get_def
      cors_only_eq content_type_lower)

lemma status_internal_error: "status internal_error = 500"
  by (simp add: internal_error_def text_response_def)

text \<open>Lines 47-56 for a request that passed the three checks.\<close>

lemma fetch_handler_proxied:
  assumes "authorized rx e q" and "proxied q"
  shows "fetch_handler rx upstream e c q =
     (let evs3 = [Log (''Request for path: '' @ request_path q),
                  Log (''Request for path with allowed extension: '' @ request_path q),
                  CacheMatch (cacheKey e q)] in
      case c (cacheKey e q) of
        Some cachedResponse \<Rightarrow>
          if method q = ''HEAD'' then
            (case stripBody cachedResponse of
               Inl err \<Rightarrow> (Inl err, c, evs3)
             | Inr stripped \<Rightarrow> (Inr stripped, c, evs3))
          else (Inr cachedResponse, c, evs3)
      | None \<Rightarrow> fetch_miss upstream e c q (cacheKey e q) evs3)"
proof -
  from assms(1) have a: "isAllowedPath rx e (request_path q) = (Inr True, [])"
    and b: "isAllowedExtension e (request_path q) = Inr True"
    by (simp_all add: authorizedD)
  from assms(2) consider "method q = ''GET''" | "method q = ''HEAD''"
    unfolding proxied_def by auto
  then show ?thesis
  proof cases
    case 1
    then show ?thesis
      by (simp add: fetch_handler_def a b cacheKey_def Let_def split: option.splits sum.splits)
  next
    case 2
    then show ?thesis
      by (simp add: fetch_handler_def a b cacheKey_def Let_def split: option.splits sum.splits)
  qed
qed

text \<open>The concrete request is authorized under the concrete configuration.\<close>

lemma example_authorized: "authorized plain_engine example_env (jar_request m)"
  by (simp add: authorized_def isAllowedPath_def isAllowedExtension_def example_env_def
      truthy_def jar_request_def request_path_def startsWith_def endsWith_def)

lemma example_key: "cacheKey example_env (jar_request m) = jar_url"
  by (simp add: cacheKey_def githubMavenUrl_def example_env_def tmpl_def jar_request_def
      request_path_def startsWith_def jar_url_def)

subsection \<open>OPTIONS\<close>

lemma bad_path_eq:
  "bad_path =
     \<lparr>status = 404, statusText = [],
      headers = [(''access-control-allow-origin'', ''*''),
                 (''content-type'', ''text/plain;charset=UTF-8'')],
      body = Some ''Invalid request (bad path)''\<rparr>"
  by (simp add: bad_path_def text_response_def text_headers_def headers_get_def
      cors_only_eq content_type_lower)

lemma rejection_bad_path: "rejection ''Invalid request (bad path)'' bad_path"
  by (simp add: rejection_def bad_path_eq headers_get_def lower_def lower_char_def)

lemma rejection_bad_extension: "rejection ''Invalid request (bad extension)'' bad_extension"
  by (simp add: rejection_def bad_extension_eq headers_get_def lower_def lower_char_def)

text \<open>
  C2, as the code has it: an OPTIONS request never reaches the cache or the upstream
  and leaves the cache as it was. The path and the extension check come first
  (lines 12-28): when the request passes both, the response is the preflight
  response, status 200, no body, and exactly the three CORS headers; when the path
  check rejects it, or the extension check does, the response is that check's 404.
\<close>

theorem options_preflight:
  assumes "method q = ''OPTIONS''"
  shows "\<exists>res evs. fetch_handler rx upstream e c q = (res, c, evs) \<and>
           filter is_io evs = [] \<and>
           (authorized rx e q \<longrightarrow>
              (\<exists>r. res = Inr r \<and> status r = 200 \<and> body r = None \<and>
                   headers r = [(''access-control-allow-origin'', ''*''),
                                (''access-control-allow-methods'', ''GET, OPTIONS''),
                                (''access-control-allow-headers'', ''Accept, HEAD'')])) \<and>
           (fst (isAllowedPath rx e (request_path q)) = Inr False \<longrightarrow>
              (\<exists>r. res = Inr r \<and> rejection ''Invalid request (bad path)'' r)) \<and>
           (fst (isAllowedPath rx e (request_path q)) = Inr True \<and>
            isAllowedExtension e (request_path q) = Inr False \<longrightarrow>
              (\<exists>r. res = Inr r \<and> rejection ''Invalid request (bad extension)'' r))"
proof (cases "isAllowedPath rx e (request_path q)")
  case (Pair a w)
  then have w: "filter is_io w = []"
    by (simp add: isAllowedPath_events)
  show ?thesis
    using assms Pair w rejection_bad_path rejection_bad_extension
    by (auto simp add: fetch_handler_def authorized_def Let_def preflight_def
        preflight_headers_eq split: sum.splits bool.splits)
qed

theorem options_preflight_witness:
  "method (jar_request ''OPTIONS'') = ''OPTIONS'' \<and>
   authorized plain_engine example_env (jar_request ''OPTIONS'') \<and>
   (\<exists>r evs. fetch_handler plain_engine unreachable example_env other_cache
              (jar_request ''OPTIONS'') = (Inr r, other_cache, evs) \<and>
      filter is_io evs = [] \<and> status r = 200 \<and> body r = None \<and>
      headers r = [(''access-control-allow-origin'', ''*''),
                   (''access-control-allow-methods'', ''GET, OPTIONS''),
                   (''access-control-allow-headers'', ''Accept, HEAD'')]) \<and>
   fst (isAllowedPath plain_engine (example_env\<lparr>ALLOWED_PATHS := Some ''org/''\<rparr>)
          (request_path (jar_request ''OPTIONS''))) = Inr False \<and>
   (\<exists>r evs. fetch_handler plain_engine unreachable (example_env\<lparr>ALLOWED_PATHS := Some ''org/''\<rparr>)
              other_cache (jar_request ''OPTIONS'') = (Inr r, other_cache, evs) \<and>
      filter is_io evs = [] \<and> rejection ''Invalid request (bad path)'' r) \<and>
   method readme_request = ''OPTIONS'' \<and>
   fst (isAllowedPath plain_engine example_env (request_path readme_request)) = Inr True \<and>
   isAllowedExtension example_env (request_path readme_request) = Inr False \<and>
   (\<exists>r evs. fetch_handler plain_engine unreachable example_env other_cache readme_request
              = (Inr r, other_cache, evs) \<and>
      filter is_io evs = [] \<and> rejection ''Invalid request (bad extension)'' r)"
proof -
  have m: "method (jar_request ''OPTIONS'') = ''OPTIONS''"
    by (simp add: jar_request_def)
  have a: "authorized plain_engine example_env (jar_request ''OPTIONS'')"
    by (rule example_authorized)
  have p: "fst (isAllowedPath plain_engine (example_env\<lparr>ALLOWED_PATHS := Some ''org/''\<rparr>)
                 (request_path (jar_request ''OPTIONS''))) = Inr False"
    by (simp add: isAllowedPath_def example_env_def truthy_def tmpl_def plain_engine_def
        trim_def is_space_def jar_request_def request_path_def startsWith_def)
  have m': "method readme_request = ''OPTIONS''"
    by (simp add: readme_request_def)
  have p': "fst (isAllowedPath plain_engine example_env (request_path readme_request)) = Inr True"
    by (simp add: isAllowedPath_def example_env_def truthy_def)
  have x': "isAllowedExtension example_env (request_path readme_request) = Inr False"
    by (simp add: isAllowedExtension_def example_env_def readme_request_def request_path_def
        startsWith_def endsWith_def)
  from options_preflight [OF m, of plain_engine unreachable example_env other_cache] a
  have 1: "\<exists>r evs. fetch_handler plain_engine unreachable example_env other_cache
              (jar_request ''OPTIONS'') = (Inr r, other_cache, evs) \<and>
      filter is_io evs = [] \<and> status r = 200 \<and> body r = None \<and>
      headers r = [(''access-control-allow-origin'', ''*''),
                   (''access-control-allow-methods'', ''GET, OPTIONS''),
                   (''access-control-allow-headers'', ''Accept, HEAD'')]"
    by blast
  from options_preflight
    [OF m, of plain_engine unreachable "example_env\<lparr>ALLOWED_PATHS := Some ''org/''\<rparr>" other_cache] p
  have 2: "\<exists>r evs. fetch_handler plain_engine unreachable
              (example_env\<lparr>ALLOWED_PATHS := Some ''org/''\<rparr>)
              other_cache (jar_request ''OPTIONS'') = (Inr r, other_cache, evs) \<and>
      filter is_io evs = [] \<and> rejection ''Invalid request (bad path)'' r"
    by blast
  from options_preflight [OF m', of plain_engine unreachable example_env other_cache] p' x'
  have 3: "\<exists>r evs. fetch_handler plain_engine unreachable example_env other_cache readme_request
              = (Inr r, other_cache, evs) \<and>
      filter is_io evs = [] \<and> rejection ''Invalid request (bad extension)'' r"
    by blast
  from m a 1 p 2 m' p' x' 3 show ?thesis
    by blast
qed

text \<open>
  C2 as stated fails: an OPTIONS request for a path whose extension is not allowed is
  answered 404 with the allow-origin header alone (and the content type of its text),
  not with the preflight header set.
\<close>

theorem options_bad_extension_counterexample:
  "fst (fetch_handler plain_engine unreachable example_env Map.empty
         \<lparr>method = ''OPTIONS'', pathname = ''/notes/readme.txt'', req_headers = []\<rparr>)
     = Inr bad_extension \<and>
   status bad_extension = 404 \<and>
   headers bad_extension \<noteq> headers preflight"
  by (simp add: fetch_handler_def request_path_def startsWith_def isAllowedPath_def
      isAllowedExtension_def example_env_def truthy_def endsWith_def bad_extension_eq
      preflight_def preflight_headers_eq)

subsection \<open>Configuration errors\<close>

text \<open>
  A pattern of the allow-list that does not compile is not skipped: all patterns are
  compiled before any is tried, so \<open>isAllowedPath\<close> throws the engine's
  \<open>SyntaxError\<close> for every path, also for one that another pattern accepts. The
  call of line 12 stands before the \<open>try\<close> block, so the exception leaves the
  handler.
\<close>

lemma malformed_pattern_throws:
  assumes "ALLOWED_PATHS e = Some s" and "s \<noteq> []"
    and "p \<in> set (split_comma s)" and "rx_compile rx (trim p) = None"
  shows "isAllowedPath rx e url = (Inl SyntaxError, []) \<and>
         fetch_handler rx upstream e c q = (Inl SyntaxError, c, [])"
proof -
  have "compile_patterns rx (split_comma s) = Inl SyntaxError"
    using assms(3,4) by (rule compile_patterns_fails)
  then have "isAllowedPath rx e u = (Inl SyntaxError, [])" for u
    using assms(1,2) by (simp add: isAllowedPath_def truthy_def tmpl_def)
  then show ?thesis
    by (simp add: fetch_handler_def)
qed

text \<open>
  C3 fails on the code: with the allow-list \<open>com/,(\<close>, whose second pattern does not
  compile, a GET request that the first pattern accepts gets no response from the
  handler. The \<open>SyntaxError\<close> leaves it: no 500 response is built and nothing is
  logged, where the missing credential, the other configuration error, is logged
  and answered 500 (lines 59-62), and a throw inside the \<open>try\<close> block likewise
  (lines 104-107).
\<close>

theorem malformed_pattern_leaves_handler:
  "fetch_handler plain_engine (answers jar_found) (example_env\<lparr>ALLOWED_PATHS := Some ''com/,(''\<rparr>)
     other_cache (jar_request ''GET'') = (Inl SyntaxError, other_cache, [])"
  by (simp add: fetch_handler_def isAllowedPath_def example_env_def truthy_def tmpl_def
      plain_engine_def trim_def is_space_def)

text \<open>
  Without the extension allow-list \<open>isAllowedExtension\<close> throws a \<open>TypeError\<close> for
  every path and never allows one. No request gets past it: the handler ends before
  the cache or the upstream is contacted, with the cache unchanged, at the path
  check or with the \<open>TypeError\<close>, which leaves the handler as the call of line 21
  stands before the \<open>try\<close> block.
\<close>

lemma missing_extension_list_throws:
  assumes "ALLOWED_EXTENSIONS e = None"
  shows "isAllowedExtension e path = Inl TypeError \<and>
         (\<exists>res evs. fetch_handler rx upstream e c q = (res, c, evs) \<and>
            filter is_io evs = [] \<and>
            (fst (isAllowedPath rx e (request_path q)) = Inr True \<longrightarrow> res = Inl TypeError) \<and>
            (fst (isAllowedPath rx e (request_path q)) = Inr False \<longrightarrow> res = Inr bad_path) \<and>
            (\<forall>err. fst (isAllowedPath rx e (request_path q)) = Inl err \<longrightarrow> res = Inl err))"
proof (cases "isAllowedPath rx e (request_path q)")
  case (Pair a w)
  then have w: "filter is_io w = []"
    by (simp add: isAllowedPath_events)
  have x: "isAllowedExtension e u = Inl TypeError" for u
    using assms by (simp add: isAllowedExtension_def)
  show ?thesis
    using Pair w x
    by (auto simp add: fetch_handler_def Let_def split: sum.splits bool.splits)
qed

text \<open>
  C4 fails on the code: without the extension allow-list a GET request that passes
  the path check gets no response from the handler. A \<open>TypeError\<close> leaves it after
  the first log line: no 500 response is built and the absence is not logged, where
  the missing credential is logged and answered 500 (lines 59-62).
\<close>

theorem missing_extension_list_leaves_handler:
  "fetch_handler plain_engine (answers jar_found) (example_env\<lparr>ALLOWED_EXTENSIONS := None\<rparr>)
     other_cache (jar_request ''GET'')
   = (Inl TypeError, other_cache, [Log ''Request for path: com/example/lib-1.0.jar''])"
  by (simp add: fetch_handler_def isAllowedPath_def isAllowedExtension_def example_env_def
      truthy_def jar_request_def request_path_def startsWith_def)

subsection \<open>Errors on a cache miss\<close>

text \<open>
  C6: on a cache miss, when the upstream fetch throws, the handler returns a response
  of status 500 and the cache is what it was: nothing is put.
\<close>

theorem network_failure_not_cached:
  assumes "authorized rx e q" and "proxied q"
    and "c (cacheKey e q) = None"
    and "truthy (GITHUB_TOKEN e)"
    and "upstream (newRequest e q (cacheKey e q)) = Inl err"
  shows "\<exists>r evs. fetch_handler rx upstream e c q = (Inr r, c, evs) \<and>
           status r = 500 \<and> filter is_put evs = []"
  using assms(3-5)
  by (simp add: fetch_handler_proxied [OF assms(1,2)] fetch_miss_def catch_block_def Let_def
      status_internal_error)

theorem network_failure_not_cached_witness:
  "authorized plain_engine example_env (jar_request ''GET'') \<and>
   proxied (jar_request ''GET'') \<and>
   other_cache (cacheKey example_env (jar_request ''GET'')) = None \<and>
   truthy (GITHUB_TOKEN example_env) \<and>
   unreachable (newRequest example_env (jar_request ''GET'')
                  (cacheKey example_env (jar_request ''GET''))) = Inl NetworkError \<and>
   (\<exists>r evs. fetch_handler plain_engine unreachable example_env other_cache (jar_request ''GET'')
        = (Inr r, other_cache, evs) \<and> status r = 500 \<and> filter is_put evs = [])"
proof -
  have 1: "authorized plain_engine example_env (jar_request ''GET'')"
    by (rule example_authorized)
  have 2: "proxied (jar_request ''GET'')"
    by (simp add: proxied_def jar_request_def)
  have 3: "other_cache (cacheKey example_env (jar_request ''GET'')) = None"
    by (simp add: example_key jar_url_def other_cache_def)
  have 4: "truthy (GITHUB_TOKEN example_env)"
    by (simp add: truthy_def example_env_def)
  have 5: "unreachable (newRequest example_env (jar_request ''GET'')
                          (cacheKey example_env (jar_request ''GET''))) = Inl NetworkError"
    by (simp add: unreachable_def)
  from network_failure_not_cached [where c = other_cache and upstream = unreachable, OF 1 2 3 4 5]
    1 2 3 4 5
  show ?thesis
    by blast
qed

text \<open>
  C7: with no credential configured (absent or empty), a GET or HEAD request that
  reaches the cache miss gets a response of status 500, and the upstream is not
  called, whatever it would have answered.
\<close>

theorem missing_token_no_upstream:
  assumes "authorized rx e q" and "proxied q"
    and "c (cacheKey e q) = None"
    and "\<not> truthy (GITHUB_TOKEN e)"
  shows "\<exists>r evs. fetch_handler rx upstream e c q = (Inr r, c, evs) \<and>
           status r = 500 \<and> filter is_upstream evs = []"
  using assms(3-4)
  by (simp add: fetch_handler_proxied [OF assms(1,2)] fetch_miss_def Let_def
      status_internal_error)

theorem missing_token_no_upstream_witness:
  "authorized plain_engine (example_env\<lparr>GITHUB_TOKEN := None\<rparr>) (jar_request ''HEAD'') \<and>
   proxied (jar_request ''HEAD'') \<and>
   other_cache (cacheKey (example_env\<lparr>GITHUB_TOKEN := None\<rparr>) (jar_request ''HEAD'')) = None \<and>
   \<not> truthy (GITHUB_TOKEN (example_env\<lparr>GITHUB_TOKEN := None\<rparr>)) \<and>
   (\<exists>r evs. fetch_handler plain_engine (answers jar_found) (example_env\<lparr>GITHUB_TOKEN := None\<rparr>)
               other_cache (jar_request ''HEAD'')
        = (Inr r, other_cache, evs) \<and> status r = 500 \<and> filter is_upstream evs = [])"
proof -
  have 1: "authorized plain_engine (example_env\<lparr>GITHUB_TOKEN := None\<rparr>) (jar_request ''HEAD'')"
    by (simp add: authorized_def isAllowedPath_def isAllowedExtension_def example_env_def
        truthy_def jar_request_def request_path_def startsWith_def endsWith_def)
  have 2: "proxied (jar_request ''HEAD'')"
    by (simp add: proxied_def jar_request_def)
  have 3: "other_cache (cacheKey (example_env\<lparr>GITHUB_TOKEN := None\<rparr>) (jar_request ''HEAD''))
             = None"
    by (simp add: cacheKey_def githubMavenUrl_def example_env_def tmpl_def jar_request_def
        request_path_def startsWith_def other_cache_def)
  have 4: "\<not> truthy (GITHUB_TOKEN (example_env\<lparr>GITHUB_TOKEN := None\<rparr>))"
    by (simp add: truthy_def)
  from missing_token_no_upstream [where c = other_cache, OF 1 2 3 4] 1 2 3 4
  show ?thesis
    by blast
qed

subsection \<open>Responses and the cache miss\<close>

lemma new_Response_Inr:
  "new_Response b s t h = Inr r \<Longrightarrow>
     r = \<lparr>status = s, statusText = t, headers = h, body = b\<rparr> \<and> 200 \<le> s \<and> s \<le> 599"
  by (auto simp add: new_Response_def split: if_splits)

lemma stripBody_valid:
  "200 \<le> status r \<Longrightarrow> status r \<le> 599 \<Longrightarrow> stripBody r = Inr (r\<lparr>body := None\<rparr>)"
  by (simp add: stripBody_def new_Response_def)

lemma stripBody_Inr: "stripBody r = Inr r' \<Longrightarrow> r' = r\<lparr>body := None\<rparr>"
  by (auto simp add: stripBody_def dest!: new_Response_Inr)

lemma fail_headers_eq:
  "text_headers (mk_headers [(''Access-Control-Allow-Origin'', ''*''), (''Cache-Control'', cache_control)])
     = [(''access-control-allow-origin'', ''*''), (''cache-control'', ''public, max-age=300''),
        (''content-type'', ''text/plain;charset=UTF-8'')]"
  by (simp add: text_headers_def mk_headers_def headers_get_def lower_def lower_char_def
      cache_control_eq)

lemma fail_response_Inr:
  "fail_response u = Inr f \<Longrightarrow>
     f = \<lparr>status = status u, statusText = [],
          headers = [(''access-control-allow-origin'', ''*''),
                     (''cache-control'', ''public, max-age=300''),
                     (''content-type'', ''text/plain;charset=UTF-8'')],
          body = Some (''Failed to fetch from GitHub Packages: '' @ statusText u)\<rparr> \<and>
     200 \<le> status u \<and> status u \<le> 599"
  unfolding fail_response_def new_Response_text_def fail_headers_eq
  by (drule new_Response_Inr) simp

lemma fail_response_valid:
  "200 \<le> status u \<Longrightarrow> status u \<le> 599 \<Longrightarrow> \<not> null_body_status (status u) \<Longrightarrow>
     \<exists>f. fail_response u = Inr f"
  by (simp add: fail_response_def new_Response_text_def new_Response_def)

lemma cache_response_Inr:
  "cache_response u = Inr r \<Longrightarrow>
     status r = status u \<and> body r = body u \<and> statusText r = statusText u \<and>
     200 \<le> status r \<and> status r \<le> 599"
  by (auto simp add: cache_response_def split: sum.splits dest!: new_Response_Inr)



lemma fetch_miss_put:
  assumes run: "fetch_miss upstream e c q k evs = (Inr r, c1, evs1)"
    and before: "filter is_put evs = []" and put: "filter is_put evs1 \<noteq> []"
    and get: "method q = ''GET''"
  shows "c1 = c(k \<mapsto> r) \<and> 200 \<le> status r \<and> status r \<le> 599"
proof (cases "truthy (GITHUB_TOKEN e)")
  case False
  with run before put show ?thesis
    by (auto simp add: fetch_miss_def Let_def)
next
  case token: True
  show ?thesis
  proof (cases "upstream (newRequest e q k)")
    case (Inl err)
    with run before put token show ?thesis
      by (auto simp add: fetch_miss_def catch_block_def Let_def)
  next
    case (Inr u)
    show ?thesis
    proof (cases "ok u")
      case False
      show ?thesis
      proof (cases "fail_response u")
        case (Inl err)
        with run before put token Inr False show ?thesis
          by (auto simp add: fetch_miss_def catch_block_def Let_def)
      next
        case f: (Inr fail)
        from fail_response_Inr [OF f] have "200 \<le> status fail \<and> status fail \<le> 599"
          by simp
        with run token Inr False f show ?thesis
          by (auto simp add: fetch_miss_def Let_def)
      qed
    next
      case True
      show ?thesis
      proof (cases "cache_response u")
        case (Inl err)
        with run before put token Inr True show ?thesis
          by (auto simp add: fetch_miss_def catch_block_def Let_def)
      next
        case cr: (Inr cacheResponse)
        from cache_response_Inr [OF cr]
        have "200 \<le> status cacheResponse \<and> status cacheResponse \<le> 599"
          by simp
        with run token Inr True cr get show ?thesis
          by (auto simp add: fetch_miss_def Let_def)
      qed
    qed
  qed
qed


lemma fetch_handler_put:
  assumes run: "fetch_handler rx upstream e c q = (res, c1, evs1)"
    and put: "filter is_put evs1 \<noteq> []"
  shows "authorized rx e q \<and> proxied q \<and> c (cacheKey e q) = None"
proof (cases "isAllowedPath rx e (request_path q)")
  case (Pair a w)
  then have w: "filter is_put w = []"
    by (simp add: isAllowedPath_events)
  have a: "a = Inr True"
  proof (rule ccontr)
    assume "a \<noteq> Inr True"
    then consider err where "a = Inl err" | "a = Inr False"
      by (cases a) auto
    then show False
      using run put Pair w by cases (auto simp add: fetch_handler_def)
  qed
  have b: "isAllowedExtension e (request_path q) = Inr True"
  proof (rule ccontr)
    assume "isAllowedExtension e (request_path q) \<noteq> Inr True"
    then consider err where "isAllowedExtension e (request_path q) = Inl err"
      | "isAllowedExtension e (request_path q) = Inr False"
      by (cases "isAllowedExtension e (request_path q)") auto
    then show False
      using run put Pair w a by cases (auto simp add: fetch_handler_def Let_def)
  qed
  from Pair a b have auth: "authorized rx e q"
    by (simp add: authorized_def)
  have p: "proxied q"
  proof (rule ccontr)
    assume "\<not> proxied q"
    then show False
      using run put Pair w a b
      by (auto simp add: fetch_handler_def proxied_def Let_def split: if_splits)
  qed
  have "c (cacheKey e q) = None"
  proof (cases "c (cacheKey e q)")
    case None
    then show ?thesis .
  next
    case (Some cr)
    with run put show ?thesis
      by (auto simp add: fetch_handler_proxied [OF auth p] Let_def split: if_splits sum.splits)
  qed
  with auth p show ?thesis
    by simp
qed


lemma fetch_miss_head:
  assumes run: "fetch_miss upstream e c q k evs = (Inr r, c1, evs1)"
    and head: "method q = ''HEAD''"
  shows "body r = None \<or> r = internal_error \<or>
         (\<exists>u. upstream (newRequest e q k) = Inr u \<and> \<not> ok u \<and> fail_response u = Inr r)"
proof (cases "truthy (GITHUB_TOKEN e)")
  case False
  with run show ?thesis
    by (auto simp add: fetch_miss_def Let_def)
next
  case token: True
  show ?thesis
  proof (cases "upstream (newRequest e q k)")
    case (Inl err)
    with run token show ?thesis
      by (auto simp add: fetch_miss_def catch_block_def Let_def)
  next
    case (Inr u)
    show ?thesis
    proof (cases "ok u")
      case False
      with run token Inr show ?thesis
        by (cases "fail_response u") (auto simp add: fetch_miss_def catch_block_def Let_def)
    next
      case True
      show ?thesis
      proof (cases "cache_response u")
        case (Inl err)
        with run token Inr True show ?thesis
          by (auto simp add: fetch_miss_def catch_block_def Let_def)
      next
        case cr: (Inr cacheResponse)
        show ?thesis
        proof (cases "stripBody cacheResponse")
          case (Inl err)
          with run token Inr True cr head show ?thesis
            by (auto simp add: fetch_miss_def catch_block_def Let_def)
        next
          case s: (Inr stripped)
          from stripBody_Inr [OF s] have "body stripped = None"
            by simp
          with run token Inr True cr head s show ?thesis
            by (auto simp add: fetch_miss_def Let_def)
        qed
      qed
    qed
  qed
qed

text \<open>
  What a HEAD request can get: a response without body, unless it is one of the
  four text responses. A cache hit and a fresh 2xx answer are stripped (lines 55
  and 103); the failure response of line 88 is not.
\<close>

lemma head_response_body:
  assumes head: "method q = ''HEAD''"
    and run: "fetch_handler rx upstream e c q = (Inr r, c1, evs)"
  shows "body r = None \<or> r = bad_path \<or> r = bad_extension \<or> r = internal_error \<or>
         (\<exists>u. upstream (newRequest e q (cacheKey e q)) = Inr u \<and> \<not> ok u \<and>
              fail_response u = Inr r)"
proof (cases "authorized rx e q")
  case False
  obtain a w where aw: "isAllowedPath rx e (request_path q) = (a, w)"
    by (cases "isAllowedPath rx e (request_path q)")
  from False aw run show ?thesis
    by (auto simp add: fetch_handler_def authorized_def Let_def
        split: sum.splits bool.splits)
next
  case auth: True
  from head have p: "proxied q"
    by (simp add: proxied_def)
  show ?thesis
  proof (cases "c (cacheKey e q)")
    case None
    with run have "fetch_miss upstream e c q (cacheKey e q)
        [Log (''Request for path: '' @ request_path q),
         Log (''Request for path with allowed extension: '' @ request_path q),
         CacheMatch (cacheKey e q)] = (Inr r, c1, evs)"
      by (simp add: fetch_handler_proxied [OF auth p] Let_def)
    from fetch_miss_head [OF this head] show ?thesis
      by blast
  next
    case (Some cr)
    with run head have "stripBody cr = Inr r"
      by (auto simp add: fetch_handler_proxied [OF auth p] Let_def split: sum.splits)
    from stripBody_Inr [OF this] show ?thesis
      by simp
  qed
qed

lemma example_proxied: "proxied (jar_request ''GET'')" "proxied (jar_request ''HEAD'')"
  by (simp_all add: proxied_def jar_request_def)

lemma example_miss: "other_cache jar_url = None"
  by (simp add: other_cache_def jar_url_def)

lemma example_token: "truthy (GITHUB_TOKEN example_env)"
  by (simp add: truthy_def example_env_def)

lemma jar_found_cached: "cache_response jar_found = Inr jar_cached"
  by (simp add: cache_response_def new_Response_def jar_found_def jar_cached_def
      null_body_status_def cache_control_eq lower_def lower_char_def)

lemma unavailable_failed: "fail_response unavailable = Inr jar_failed"
  by (simp add: fail_response_def new_Response_text_def new_Response_def fail_headers_eq
      unavailable_def jar_failed_def null_body_status_def)

lemma not_modified_fails: "fail_response not_modified = Inl TypeError"
  by (simp add: fail_response_def new_Response_text_def new_Response_def
      not_modified_def null_body_status_def)

lemma example_ok: "ok jar_found" "\<not> ok unavailable" "\<not> ok not_modified"
  by (simp_all add: ok_def jar_found_def unavailable_def not_modified_def)

lemma example_method: "method (jar_request m) = m"
  by (simp add: jar_request_def)

lemma example_get_found:
  "\<exists>evs. fetch_handler plain_engine (answers jar_found) example_env other_cache (jar_request ''GET'')
          = (Inr jar_cached, other_cache(jar_url \<mapsto> jar_cached), evs) \<and>
         filter is_put evs \<noteq> []"
  by (simp add: fetch_handler_proxied [OF example_authorized example_proxied(1)] example_key
      example_miss fetch_miss_def example_token answers_def jar_found_cached Let_def
      example_ok example_method)

subsection \<open>HEAD after GET\<close>

text \<open>
  C8: GET and HEAD requests for one path have the same cache key. After a GET that
  populated the cache with the response \<open>r\<close> it returned, a HEAD request for the path
  is answered from that entry, without an upstream call and without a new store: it
  gets \<open>r\<close> with the body removed, so the status, status text and headers that a GET
  gets from the same cache, and no body.
\<close>

theorem head_served_from_get_entry:
  assumes "method g = ''GET''" and "method h = ''HEAD''" and "pathname h = pathname g"
    and "fetch_handler rx up1 e c g = (Inr r, c1, evs1)"
    and "filter is_put evs1 \<noteq> []"
  shows "cacheKey e h = cacheKey e g \<and> c1 (cacheKey e g) = Some r \<and>
         (\<exists>evs2. fetch_handler rx up2 e c1 h = (Inr (r\<lparr>body := None\<rparr>), c1, evs2) \<and>
                  filter is_upstream evs2 = [] \<and> filter is_put evs2 = []) \<and>
         (\<exists>evs3. fetch_handler rx up3 e c1 g = (Inr r, c1, evs3))"
proof -
  from fetch_handler_put [OF assms(4,5)]
  have a: "authorized rx e g" and p: "proxied g" and miss: "c (cacheKey e g) = None"
    by simp_all
  have path: "request_path h = request_path g"
    using assms(3) by (simp add: request_path_def)
  then have k: "cacheKey e h = cacheKey e g"
    by (simp add: cacheKey_def)
  from a path have ah: "authorized rx e h"
    by (simp add: authorized_def)
  from assms(2) have ph: "proxied h"
    by (simp add: proxied_def)
  from assms(4) miss have m:
    "fetch_miss up1 e c g (cacheKey e g)
       [Log (''Request for path: '' @ request_path g),
        Log (''Request for path with allowed extension: '' @ request_path g),
        CacheMatch (cacheKey e g)] = (Inr r, c1, evs1)"
    by (simp add: fetch_handler_proxied [OF a p] Let_def)
  have "c1 = c(cacheKey e g \<mapsto> r) \<and> 200 \<le> status r \<and> status r \<le> 599"
    by (rule fetch_miss_put [OF m _ assms(5) assms(1)]) simp
  then have c1: "c1 = c(cacheKey e g \<mapsto> r)" and lo: "200 \<le> status r" and hi: "status r \<le> 599"
    by simp_all
  from c1 have hit: "c1 (cacheKey e g) = Some r"
    by simp
  have H: "\<exists>evs2. fetch_handler rx up2 e c1 h = (Inr (r\<lparr>body := None\<rparr>), c1, evs2) \<and>
                  filter is_upstream evs2 = [] \<and> filter is_put evs2 = []"
    using hit assms(2) stripBody_valid [OF lo hi]
    by (simp add: fetch_handler_proxied [OF ah ph] k Let_def)
  have G: "\<exists>evs3. fetch_handler rx up3 e c1 g = (Inr r, c1, evs3)"
    using hit assms(1)
    by (simp add: fetch_handler_proxied [OF a p] Let_def)
  from k hit H G show ?thesis
    by blast
qed

theorem head_served_from_get_entry_witness:
  "method (jar_request ''GET'') = ''GET'' \<and> method (jar_request ''HEAD'') = ''HEAD'' \<and>
   pathname (jar_request ''HEAD'') = pathname (jar_request ''GET'') \<and>
   (\<exists>evs1. fetch_handler plain_engine (answers jar_found) example_env other_cache
              (jar_request ''GET'')
            = (Inr jar_cached, other_cache(jar_url \<mapsto> jar_cached), evs1) \<and>
          filter is_put evs1 \<noteq> []) \<and>
   (\<exists>evs2. fetch_handler plain_engine unreachable example_env
              (other_cache(jar_url \<mapsto> jar_cached)) (jar_request ''HEAD'')
            = (Inr (jar_cached\<lparr>body := None\<rparr>), other_cache(jar_url \<mapsto> jar_cached), evs2) \<and>
          filter is_upstream evs2 = [] \<and> filter is_put evs2 = []) \<and>
   (\<exists>evs3. fetch_handler plain_engine unreachable example_env
              (other_cache(jar_url \<mapsto> jar_cached)) (jar_request ''GET'')
            = (Inr jar_cached, other_cache(jar_url \<mapsto> jar_cached), evs3))"
proof -
  have 1: "method (jar_request ''GET'') = ''GET''"
    and 2: "method (jar_request ''HEAD'') = ''HEAD''"
    and 3: "pathname (jar_request ''HEAD'') = pathname (jar_request ''GET'')"
    by (simp_all add: jar_request_def)
  from example_get_found obtain evs1 where
    4: "fetch_handler plain_engine (answers jar_found) example_env other_cache
          (jar_request ''GET'')
        = (Inr jar_cached, other_cache(jar_url \<mapsto> jar_cached), evs1)"
    and 5: "filter is_put evs1 \<noteq> []"
    by blast
  from head_served_from_get_entry
    [where ?up2.0 = unreachable and ?up3.0 = unreachable, OF 1 2 3 4 5] 1 2 3 4 5
  show ?thesis
    by blast
qed

subsection \<open>HEAD on a failure of the upstream\<close>

text \<open>
  C1 fails on the code for a failure of the upstream: a HEAD request that misses the
  cache while the upstream answers 503 gets the failure response with its text as
  body. Line 88 returns \<open>fail\<close> as it is, where lines 55 and 103 strip the body
  (\<open>head_response_body\<close>).
\<close>

theorem head_upstream_failure_keeps_body:
  "fst (fetch_handler plain_engine (answers unavailable) example_env other_cache
          (jar_request ''HEAD'')) = Inr jar_failed \<and>
   body jar_failed = Some ''Failed to fetch from GitHub Packages: Service Unavailable''"
proof -
  have "body jar_failed = Some ''Failed to fetch from GitHub Packages: Service Unavailable''"
    by (simp add: jar_failed_def)
  then show ?thesis
    by (simp add: fetch_handler_proxied [OF example_authorized example_proxied(2)] example_key
        example_miss fetch_miss_def example_token answers_def unavailable_failed Let_def
        example_ok)
qed

subsection \<open>Negative caching\<close>

text \<open>
  Negative caching where the failure response can be built: the upstream's status is
  mirrored, the failure is stored under the request's key with the TTL header, and
  the next GET or HEAD for the path is answered from the cache without an upstream
  call.
\<close>

lemma negative_caching:
  assumes auth: "authorized rx e q" and p: "proxied q"
    and miss: "c (cacheKey e q) = None"
    and token: "truthy (GITHUB_TOKEN e)"
    and up: "upstream (newRequest e q (cacheKey e q)) = Inr u"
    and bad: "\<not> ok u"
    and built: "200 \<le> status u" "status u \<le> 599" "\<not> null_body_status (status u)"
    and next_request: "proxied q'" "pathname q' = pathname q"
  shows "\<exists>f evs evs'.
           fetch_handler rx upstream e c q = (Inr f, c(cacheKey e q \<mapsto> f), evs) \<and>
           status f = status u \<and>
           headers_get (headers f) ''Cache-Control'' = Some ''public, max-age=300'' \<and>
           fetch_handler rx upstream' e (c(cacheKey e q \<mapsto> f)) q'
             = (Inr (if method q' = ''HEAD'' then f\<lparr>body := None\<rparr> else f),
                c(cacheKey e q \<mapsto> f), evs') \<and>
           filter is_upstream evs' = []"
proof -
  from fail_response_valid [OF built] obtain f where f: "fail_response u = Inr f"
    by blast
  note ff = fail_response_Inr [OF f]
  from ff have st: "status f = status u"
    by simp
  from ff have cc: "headers_get (headers f) ''Cache-Control'' = Some ''public, max-age=300''"
    by (simp add: headers_get_def lower_def lower_char_def)
  have run: "\<exists>evs. fetch_handler rx upstream e c q = (Inr f, c(cacheKey e q \<mapsto> f), evs)"
    using miss token up bad f
    by (simp add: fetch_handler_proxied [OF auth p] fetch_miss_def Let_def)
  have path: "request_path q' = request_path q"
    using next_request(2) by (simp add: request_path_def)
  then have k: "cacheKey e q' = cacheKey e q"
    by (simp add: cacheKey_def)
  from auth path have auth': "authorized rx e q'"
    by (simp add: authorized_def)
  have s: "stripBody f = Inr (f\<lparr>body := None\<rparr>)"
    using built(1,2) st by (simp add: stripBody_valid)
  have again: "\<exists>evs'. fetch_handler rx upstream' e (c(cacheKey e q \<mapsto> f)) q'
             = (Inr (if method q' = ''HEAD'' then f\<lparr>body := None\<rparr> else f),
                c(cacheKey e q \<mapsto> f), evs') \<and>
           filter is_upstream evs' = []"
    using s by (simp add: fetch_handler_proxied [OF auth' next_request(1)] k Let_def)
  from run st cc again show ?thesis
    by blast
qed

lemma negative_caching_example:
  "\<exists>evs evs'.
     fetch_handler plain_engine (answers unavailable) example_env other_cache (jar_request ''GET'')
       = (Inr jar_failed, other_cache(jar_url \<mapsto> jar_failed), evs) \<and>
     fetch_handler plain_engine unreachable example_env (other_cache(jar_url \<mapsto> jar_failed))
       (jar_request ''HEAD'')
       = (Inr (jar_failed\<lparr>body := None\<rparr>), other_cache(jar_url \<mapsto> jar_failed), evs') \<and>
     filter is_upstream evs' = []"
proof -
  have u: "answers unavailable
             (newRequest example_env (jar_request ''GET'')
                (cacheKey example_env (jar_request ''GET''))) = Inr unavailable"
    by (simp add: answers_def)
  have m: "other_cache (cacheKey example_env (jar_request ''GET'')) = None"
    by (simp add: example_key example_miss)
  have st: "200 \<le> status unavailable" "status unavailable \<le> 599"
    "\<not> null_body_status (status unavailable)"
    by (simp_all add: unavailable_def null_body_status_def)
  have same: "pathname (jar_request ''HEAD'') = pathname (jar_request ''GET'')"
    by (simp add: jar_request_def)
  from negative_caching
    [where c = other_cache and upstream = "answers unavailable" and upstream' = unreachable,
     OF example_authorized example_proxied(1) m example_token u example_ok(2) st
        example_proxied(2) same]
  obtain f evs evs' where
    run: "fetch_handler plain_engine (answers unavailable) example_env other_cache
            (jar_request ''GET'')
          = (Inr f, other_cache(cacheKey example_env (jar_request ''GET'') \<mapsto> f), evs)"
    and again: "fetch_handler plain_engine unreachable example_env
            (other_cache(cacheKey example_env (jar_request ''GET'') \<mapsto> f))
            (jar_request ''HEAD'')
          = (Inr (if method (jar_request ''HEAD'') = ''HEAD'' then f\<lparr>body := None\<rparr> else f),
             other_cache(cacheKey example_env (jar_request ''GET'') \<mapsto> f), evs')"
    and quiet: "filter is_upstream evs' = []"
    by blast
  have "fst (fetch_handler plain_engine (answers unavailable) example_env other_cache
               (jar_request ''GET'')) = Inr jar_failed"
    by (simp add: fetch_handler_proxied [OF example_authorized example_proxied(1)] example_key
        example_miss fetch_miss_def example_token answers_def unavailable_failed Let_def
        example_ok)
  with run have f: "f = jar_failed"
    by simp
  from run again quiet show ?thesis
    unfolding f example_key by (simp add: example_method)
qed

text \<open>
  C5 fails on the code for the upstream status 304: the failure response has a text
  body, which the \<open>Response\<close> constructor refuses on a null-body status, so the
  \<open>try\<close> block is left through its handler: the handler answers 500, not 304, and
  stores nothing. On every other status in 300..599 the claim holds
  (\<open>negative_caching\<close>).
\<close>

theorem not_modified_not_cached:
  "fst (fetch_handler plain_engine (answers not_modified) example_env other_cache
          (jar_request ''GET'')) = Inr internal_error \<and>
   status internal_error = 500 \<and>
   fst (snd (fetch_handler plain_engine (answers not_modified) example_env other_cache
          (jar_request ''GET''))) jar_url = None"
  by (simp add: fetch_handler_proxied [OF example_authorized example_proxied(1)] example_key
      example_miss fetch_miss_def example_token answers_def not_modified_fails Let_def
      example_ok catch_block_def status_internal_error)

end
